theory Spec2Isabelle
  imports Complex_Main
begin

section \<open>The CDK application \<open>app.py\<close>: data model\<close>

text \<open>
  \<open>app.py\<close> declares one CloudFormation stack. Its values are partly Python strings
  (the construct id, literals) and partly deploy-time tokens: the value of a stack
  parameter, an attribute of a resource, the region of the stack. A value is the
  concatenation of such fragments, which is what an f-string over tokens produces.
\<close>

datatype frag =
    Text string
  | Ref string
  | GetAtt string string
  | AWS_Region

type_synonym token = "frag list"

datatype Principal = ServicePrincipal string

datatype ManagedPolicy = from_aws_managed_policy_name string

datatype Runtime = PYTHON_3_12

datatype Code = from_asset string

datatype Tracing = ACTIVE | PASS_THROUGH | DISABLED

datatype InvocationType = EVENT | REQUEST_RESPONSE | DRY_RUN

datatype Duration = Duration (to_seconds: nat)

definition seconds :: "nat \<Rightarrow> Duration" where
  "seconds n = Duration n"

definition minutes :: "nat \<Rightarrow> Duration" where
  "minutes n = Duration (n * 60)"

record CfnParameter =
  p_id :: string
  p_type :: string
  p_default :: "string option"
  p_allowed_values :: "string list option"
  p_description :: string

record PolicyStatement =
  actions :: "string list"
  resources :: "token list"

datatype PolicyDocument = PolicyDocument (statements: "PolicyStatement list")

record Role =
  r_id :: string
  r_assumed_by :: Principal
  r_role_name :: "token option"
  r_managed_policies :: "ManagedPolicy list"
  r_inline_policies :: "(string \<times> PolicyDocument) list"
  r_default_policy :: "PolicyStatement list"

record CfnIndex =
  ix_id :: string
  ix_name :: token
  ix_role_arn :: token
  ix_edition :: token

record GoogleDriveConfigurationProperty =
  secret_arn :: token

record DataSourceConfigurationProperty =
  google_drive_configuration :: GoogleDriveConfigurationProperty

record CfnDataSource =
  ds_id :: string
  ds_index_id :: token
  ds_name :: token
  ds_type :: string
  ds_data_source_configuration :: DataSourceConfigurationProperty
  ds_role_arn :: token
  ds_dependencies :: "string list"

record Function =
  fn_id :: string
  fn_runtime :: Runtime
  fn_code :: Code
  fn_handler :: string
  fn_timeout :: Duration
  fn_memory_size :: nat
  fn_role :: Role
  fn_tracing :: "Tracing option"
  fn_environment :: "(string \<times> token) list"

record Trigger =
  tr_id :: string
  tr_handler :: Function
  tr_timeout :: Duration
  tr_invocation_type :: InvocationType
  tr_execute_on_handler_change :: bool

record CfnOutput =
  out_id :: string
  out_value :: token
  out_description :: string

record Stack =
  stack_id :: string
  stack_parameters :: "CfnParameter list"
  stack_roles :: "Role list"
  stack_indexes :: "CfnIndex list"
  stack_data_sources :: "CfnDataSource list"
  stack_functions :: "Function list"
  stack_triggers :: "Trigger list"
  stack_outputs :: "CfnOutput list"

subsection \<open>Token-valued attributes of the constructs\<close>

definition value_as_string :: "CfnParameter \<Rightarrow> token" where
  "value_as_string p = [Ref (p_id p)]"

definition role_arn :: "Role \<Rightarrow> token" where
  "role_arn r = [GetAtt (r_id r) ''Arn'']"

definition index_attr_id :: "CfnIndex \<Rightarrow> token" where
  "index_attr_id ix = [GetAtt (ix_id ix) ''Id'']"

definition index_attr_arn :: "CfnIndex \<Rightarrow> token" where
  "index_attr_arn ix = [GetAtt (ix_id ix) ''Arn'']"

definition ds_attr_id :: "CfnDataSource \<Rightarrow> token" where
  "ds_attr_id ds = [GetAtt (ds_id ds) ''Id'']"

definition ds_attr_arn :: "CfnDataSource \<Rightarrow> token" where
  "ds_attr_arn ds = [GetAtt (ds_id ds) ''Arn'']"

definition function_arn :: "Function \<Rightarrow> token" where
  "function_arn f = [GetAtt (fn_id f) ''Arn'']"

definition region :: token where
  "region = [AWS_Region]"

text \<open>\<open>kendra_ds.node.add_dependency(kendra_index)\<close>: the data source records the
  construct it must be created after.\<close>

definition add_dependency :: "CfnDataSource \<Rightarrow> CfnIndex \<Rightarrow> CfnDataSource" where
  "add_dependency ds ix = ds\<lparr>ds_dependencies := ds_dependencies ds @ [ix_id ix]\<rparr>"

subsection \<open>What the function construct does with its role\<close>

text \<open>
  A role is an object: a statement added to it after its construction goes to the
  role's default policy and is part of the role in the synthesized stack.
  \<open>lambda_.Function(..., role=r, tracing=t)\<close> with tracing enabled (\<open>ACTIVE\<close> or
  \<open>PASS_THROUGH\<close>) adds to \<open>r\<close> the permission to write X-Ray traces; without the
  argument, or with \<open>DISABLED\<close>, it leaves the role as it is.
\<close>

definition add_to_policy :: "Role \<Rightarrow> PolicyStatement \<Rightarrow> Role" where
  "add_to_policy r st = r\<lparr>r_default_policy := r_default_policy r @ [st]\<rparr>"

definition tracing_statement :: PolicyStatement where
  "tracing_statement =
     \<lparr> actions = [''xray:PutTraceSegments'', ''xray:PutTelemetryRecords''],
       resources = [[Text ''*'']] \<rparr>"

definition lambda_Function :: "Function \<Rightarrow> Function" where
  "lambda_Function props =
     (case fn_tracing props of
        None \<Rightarrow> props
      | Some DISABLED \<Rightarrow> props
      | Some ACTIVE \<Rightarrow> props\<lparr>fn_role := add_to_policy (fn_role props) tracing_statement\<rparr>
      | Some PASS_THROUGH \<Rightarrow>
          props\<lparr>fn_role := add_to_policy (fn_role props) tracing_statement\<rparr>)"

section \<open>The stack\<close>

text \<open>
  \<open>BedrockKendraGoogleDriveStack.__init__\<close>, binding by binding. Every construct is
  registered in the stack under the id given as its second argument. An argument that
  \<open>app.py\<close> does not pass has the construct's default: no role name, no tracing, and
  for the trigger \<open>execute_on_handler_change=True\<close>. The role a function is given is
  the role object bound before it, so the stack holds that role as the function left
  it.
\<close>

definition model_id_param :: CfnParameter where
  "model_id_param =
     \<lparr> p_id = ''ModelId'',
       p_type = ''String'',
       p_default = Some ''anthropic.claude-instant-v1'',
       p_allowed_values = Some
         [ ''anthropic.claude-instant-v1'',
           ''anthropic.claude-3-sonnet-20240229-v1:0'',
           ''anthropic.claude-3-haiku-20240307-v1:0'',
           ''anthropic.claude-v2'' ],
       p_description = ''Enter the Model Id of the Anthropic LLM'' \<rparr>"

definition kendra_edition_param :: CfnParameter where
  "kendra_edition_param =
     \<lparr> p_id = ''KendraEdition'',
       p_type = ''String'',
       p_default = Some ''DEVELOPER_EDITION'',
       p_allowed_values = Some [ ''DEVELOPER_EDITION'', ''ENTERPRISE_EDITION'' ],
       p_description = ''Kendra edition (DEVELOPER_EDITION, ENTERPRISE_EDITION)'' \<rparr>"

definition google_drive_secret_arn_param :: CfnParameter where
  "google_drive_secret_arn_param =
     \<lparr> p_id = ''GoogleDriveSecretArn'',
       p_type = ''String'',
       p_default = None,
       p_allowed_values = None,
       p_description = ''Enter the ARN of the secret containing Google Drive credentials'' \<rparr>"

definition model_id :: token where
  "model_id = value_as_string model_id_param"

definition kendra_edition :: token where
  "kendra_edition = value_as_string kendra_edition_param"

definition google_drive_secret_arn :: token where
  "google_drive_secret_arn = value_as_string google_drive_secret_arn_param"

definition kendra_index_role :: "string \<Rightarrow> Role" where
  "kendra_index_role construct_id =
     \<lparr> r_id = ''KendraIndexRole'',
       r_assumed_by = ServicePrincipal ''kendra.amazonaws.com'',
       r_role_name = Some [Text (construct_id @ ''-KendraIndexRole'')],
       r_managed_policies = [from_aws_managed_policy_name ''CloudWatchLogsFullAccess''],
       r_inline_policies = [],
       r_default_policy = [] \<rparr>"

definition kendra_index :: "string \<Rightarrow> CfnIndex" where
  "kendra_index construct_id =
     \<lparr> ix_id = ''KendraIndex'',
       ix_name = [Text (construct_id @ ''-KendraIndex'')],
       ix_role_arn = role_arn (kendra_index_role construct_id),
       ix_edition = kendra_edition \<rparr>"

definition kendra_ds_role :: "string \<Rightarrow> Role" where
  "kendra_ds_role construct_id =
     \<lparr> r_id = ''KendraDSRole'',
       r_assumed_by = ServicePrincipal ''kendra.amazonaws.com'',
       r_role_name = Some [Text (construct_id @ ''-GoogleDriveDSRole'')],
       r_managed_policies = [from_aws_managed_policy_name ''CloudWatchLogsFullAccess''],
       r_inline_policies =
         [ (''KendraDataSourcePolicy'', PolicyDocument
             [ \<lparr> actions = [''kendra:BatchPutDocument'', ''kendra:BatchDeleteDocument''],
                 resources = [index_attr_arn (kendra_index construct_id)] \<rparr> ]),
           (''SecretsManagerPolicy'', PolicyDocument
             [ \<lparr> actions = [''secretsmanager:GetSecretValue''],
                 resources = [google_drive_secret_arn] \<rparr> ]) ],
       r_default_policy = [] \<rparr>"

definition kendra_ds :: "string \<Rightarrow> CfnDataSource" where
  "kendra_ds construct_id =
     add_dependency
       \<lparr> ds_id = ''KendraDS'',
         ds_index_id = index_attr_id (kendra_index construct_id),
         ds_name = [Text (construct_id @ ''-KendraGoogleDriveDS'')],
         ds_type = ''GOOGLEDRIVE'',
         ds_data_source_configuration =
           \<lparr> google_drive_configuration = \<lparr> secret_arn = google_drive_secret_arn \<rparr> \<rparr>,
         ds_role_arn = role_arn (kendra_ds_role construct_id),
         ds_dependencies = [] \<rparr>
       (kendra_index construct_id)"

definition data_source_sync_lambda_role :: "string \<Rightarrow> Role" where
  "data_source_sync_lambda_role construct_id =
     \<lparr> r_id = ''DataSourceSyncLambdaRole'',
       r_assumed_by = ServicePrincipal ''lambda.amazonaws.com'',
       r_role_name = None,
       r_managed_policies = [from_aws_managed_policy_name ''CloudWatchLogsFullAccess''],
       r_inline_policies =
         [ (''KendraDataSourceSyncPolicy'', PolicyDocument
             [ \<lparr> actions = [''kendra:StartDataSourceSyncJob'', ''kendra:StopDataSourceSyncJob''],
                 resources =
                   [ index_attr_arn (kendra_index construct_id),
                     index_attr_arn (kendra_index construct_id) @ [Text ''/*''] ] \<rparr> ]) ],
       r_default_policy = [] \<rparr>"

definition data_source_sync_lambda :: "string \<Rightarrow> Function" where
  "data_source_sync_lambda construct_id = lambda_Function
     \<lparr> fn_id = ''DataSourceSyncLambda'',
       fn_runtime = PYTHON_3_12,
       fn_code = from_asset ''src/dataSourceSync'',
       fn_handler = ''dataSourceSyncLambda.lambda_handler'',
       fn_timeout = minutes 15,
       fn_memory_size = 1024,
       fn_role = data_source_sync_lambda_role construct_id,
       fn_tracing = None,
       fn_environment =
         [ (''INDEX_ID'', index_attr_id (kendra_index construct_id)),
           (''DS_ID'', ds_attr_id (kendra_ds construct_id)) ] \<rparr>"

definition data_source_sync_lambda_trigger :: "string \<Rightarrow> Trigger" where
  "data_source_sync_lambda_trigger construct_id =
     \<lparr> tr_id = ''data_source_sync_lambda_trigger'',
       tr_handler = data_source_sync_lambda construct_id,
       tr_timeout = minutes 10,
       tr_invocation_type = EVENT,
       tr_execute_on_handler_change = True \<rparr>"

definition invoke_bedrock_lambda_role :: "string \<Rightarrow> Role" where
  "invoke_bedrock_lambda_role construct_id =
     \<lparr> r_id = ''InvokeBedRockLambdaRole'',
       r_assumed_by = ServicePrincipal ''lambda.amazonaws.com'',
       r_role_name = None,
       r_managed_policies = [from_aws_managed_policy_name ''CloudWatchLogsFullAccess''],
       r_inline_policies =
         [ (''InvokeBedRockPolicy'', PolicyDocument
             [ \<lparr> actions = [''bedrock:InvokeModel''],
                 resources =
                   [ [Text ''arn:aws:bedrock:''] @ region @ [Text ''::foundation-model/'']
                       @ model_id ] \<rparr> ]),
           (''KendraRetrievalPolicy'', PolicyDocument
             [ \<lparr> actions = [''kendra:Retrieve''],
                 resources = [index_attr_arn (kendra_index construct_id)] \<rparr> ]) ],
       r_default_policy = [] \<rparr>"

definition invoke_bedrock_lambda :: "string \<Rightarrow> Function" where
  "invoke_bedrock_lambda construct_id = lambda_Function
     \<lparr> fn_id = ''InvokeBedrockLambda'',
       fn_runtime = PYTHON_3_12,
       fn_code = from_asset ''src/invokeBedrockLambda'',
       fn_handler = ''invokeBedrockLambda.lambda_handler'',
       fn_timeout = seconds 120,
       fn_memory_size = 3008,
       fn_role = invoke_bedrock_lambda_role construct_id,
       fn_tracing = Some ACTIVE,
       fn_environment =
         [ (''INDEX_ID'', index_attr_id (kendra_index construct_id)),
           (''MODEL_ID'', model_id) ] \<rparr>"

definition BedrockKendraGoogleDriveStack :: "string \<Rightarrow> Stack" where
  "BedrockKendraGoogleDriveStack construct_id =
     \<lparr> stack_id = construct_id,
       stack_parameters = [model_id_param, kendra_edition_param, google_drive_secret_arn_param],
       stack_roles =
         [ kendra_index_role construct_id,
           kendra_ds_role construct_id,
           fn_role (data_source_sync_lambda construct_id),
           fn_role (invoke_bedrock_lambda construct_id) ],
       stack_indexes = [kendra_index construct_id],
       stack_data_sources = [kendra_ds construct_id],
       stack_functions = [data_source_sync_lambda construct_id, invoke_bedrock_lambda construct_id],
       stack_triggers = [data_source_sync_lambda_trigger construct_id],
       stack_outputs =
         [ \<lparr> out_id = ''KendraIndexRoleArn'',
             out_value = role_arn (kendra_index_role construct_id),
             out_description = ''Kendra index role ARN'' \<rparr>,
           \<lparr> out_id = ''KendraIndexID'',
             out_value = index_attr_id (kendra_index construct_id),
             out_description = ''Kendra index ID'' \<rparr>,
           \<lparr> out_id = ''KendraGoogleDriveDataSourceArn'',
             out_value = ds_attr_arn (kendra_ds construct_id),
             out_description = ''Kendra Google Drive data source ARN'' \<rparr>,
           \<lparr> out_id = ''DataSourceSyncLambdaArn'',
             out_value = function_arn (data_source_sync_lambda construct_id),
             out_description = ''Data source sync lambda function ARN'' \<rparr>,
           \<lparr> out_id = ''InvokeBedrockLambdaArn'',
             out_value = function_arn (invoke_bedrock_lambda construct_id),
             out_description = ''Invoke bedrock lambda function ARN'' \<rparr> ] \<rparr>"

text \<open>\<open>app = cdk.App(); BedrockKendraGoogleDriveStack(app, "BedrockKendraGoogleDriveStack")\<close>\<close>

definition app :: Stack where
  "app = BedrockKendraGoogleDriveStack ''BedrockKendraGoogleDriveStack''"

section \<open>Reading a stack\<close>

definition find_function :: "Stack \<Rightarrow> string \<Rightarrow> Function option" where
  "find_function s fid = find (\<lambda>f. fn_id f = fid) (stack_functions s)"

text \<open>The value a function's environment gives a variable; \<open>None\<close> when the stack has
  no such function or the function no such variable.\<close>

definition env_var :: "Stack \<Rightarrow> string \<Rightarrow> string \<Rightarrow> token option" where
  "env_var s fid k =
     (case find_function s fid of
        None \<Rightarrow> None
      | Some f \<Rightarrow> map_of (fn_environment f) k)"

definition functions_with_key :: "Stack \<Rightarrow> string \<Rightarrow> string list" where
  "functions_with_key s k =
     map fn_id (filter (\<lambda>f. k \<in> set (map fst (fn_environment f))) (stack_functions s))"

definition functions_given :: "Stack \<Rightarrow> token \<Rightarrow> string list" where
  "functions_given s v =
     map fn_id (filter (\<lambda>f. v \<in> set (map snd (fn_environment f))) (stack_functions s))"

text \<open>The statements a role carries: those of its inline policies, then those of its
  default policy; the actions they allow, and the resources on which they allow one
  action.\<close>

definition inline_statements :: "Role \<Rightarrow> PolicyStatement list" where
  "inline_statements r = concat (map (\<lambda>(name, doc). statements doc) (r_inline_policies r))"

definition inline_actions :: "Role \<Rightarrow> string list" where
  "inline_actions r = concat (map actions (inline_statements r))"

definition role_statements :: "Role \<Rightarrow> PolicyStatement list" where
  "role_statements r = inline_statements r @ r_default_policy r"

definition role_actions :: "Role \<Rightarrow> string list" where
  "role_actions r = concat (map actions (role_statements r))"

definition resources_for :: "Role \<Rightarrow> string \<Rightarrow> token list" where
  "resources_for r a =
     concat (map resources (filter (\<lambda>st. a \<in> set (actions st)) (role_statements r)))"

text \<open>An action is written \<open>service:Operation\<close>; the bare wildcard \<open>*\<close> covers every
  service.\<close>

definition action_service :: "string \<Rightarrow> string" where
  "action_service a = takeWhile (\<lambda>c. c \<noteq> CHR '':'') a"

definition service_actions :: "Role \<Rightarrow> string \<Rightarrow> string list" where
  "service_actions r svc =
     filter (\<lambda>a. action_service a = svc \<or> a = ''*'') (role_actions r)"

section \<open>Deployment of the template\<close>

text \<open>
  What CloudFormation does with the declarations above. A parameter takes the value
  supplied at deployment, or its default when none is supplied; a parameter with
  allowed values rejects any other value, and a parameter left without a value
  rejects the deployment.
\<close>

definition parameter_value :: "CfnParameter \<Rightarrow> string option \<Rightarrow> string option" where
  "parameter_value p supplied =
     (case (case supplied of Some v \<Rightarrow> Some v | None \<Rightarrow> p_default p) of
        None \<Rightarrow> None
      | Some v \<Rightarrow>
          (case p_allowed_values p of
             None \<Rightarrow> Some v
           | Some vs \<Rightarrow> if v \<in> set vs then Some v else None))"

text \<open>A deployment fixes the region, the parameter values and the attributes of the
  created resources; a token renders to the concatenation of its fragments.\<close>

record deployment =
  dep_region :: string
  dep_parameter :: "string \<Rightarrow> string"
  dep_attribute :: "string \<Rightarrow> string \<Rightarrow> string"

fun render_frag :: "deployment \<Rightarrow> frag \<Rightarrow> string" where
  "render_frag d (Text s) = s"
| "render_frag d (Ref p) = dep_parameter d p"
| "render_frag d (GetAtt r a) = dep_attribute d r a"
| "render_frag d AWS_Region = dep_region d"

definition render :: "deployment \<Rightarrow> token \<Rightarrow> string" where
  "render d t = concat (map (render_frag d) t)"

text \<open>Resources are created in an order in which each comes after the constructs it
  depends on: \<open>created_before order a b\<close> says that \<open>a\<close> is created, and before \<open>b\<close>.\<close>

definition created_before :: "string list \<Rightarrow> string \<Rightarrow> string \<Rightarrow> bool" where
  "created_before order a b = (a \<in> set (takeWhile (\<lambda>x. x \<noteq> b) order))"

definition respects_dependencies :: "Stack \<Rightarrow> string list \<Rightarrow> bool" where
  "respects_dependencies s order =
     list_all (\<lambda>ds. ds_id ds \<notin> set order
                  \<or> list_all (\<lambda>dep. created_before order dep (ds_id ds)) (ds_dependencies ds))
       (stack_data_sources s)"

text \<open>
  A trigger runs its handler during deployments. It is created with the stack, and its
  creation invokes the handler. With \<open>execute_on_handler_change\<close> it is tied to the
  current version of the handler, so an update of the stack that changes the handler
  invokes it again; an update that leaves the handler unchanged does not touch the
  trigger, and the deletion of the stack invokes nothing. \<open>UpdateStack c\<close> is an
  update, \<open>c\<close> telling whether the handler has changed.
\<close>

datatype stack_operation = CreateStack | UpdateStack bool | DeleteStack

definition trigger_runs :: "Trigger \<Rightarrow> stack_operation \<Rightarrow> bool" where
  "trigger_runs t ev =
     (case ev of
        CreateStack \<Rightarrow> True
      | UpdateStack handler_changed \<Rightarrow> handler_changed \<and> tr_execute_on_handler_change t
      | DeleteStack \<Rightarrow> False)"

definition deployment_invocations ::
  "Stack \<Rightarrow> stack_operation \<Rightarrow> (string \<times> InvocationType) list" where
  "deployment_invocations s ev =
     map (\<lambda>t. (fn_id (tr_handler t), tr_invocation_type t))
       (filter (\<lambda>t. trigger_runs t ev) (stack_triggers s))"

text \<open>Only a request-response invocation makes its caller wait for the handler to
  finish; an event invocation returns once the request is queued, a dry run at once.\<close>

definition waits_for_handler :: "InvocationType \<Rightarrow> bool" where
  "waits_for_handler ty = (ty = REQUEST_RESPONSE)"

section \<open>The two handlers\<close>

text \<open>
  The stack names two handlers, \<open>dataSourceSyncLambda.lambda_handler\<close> (asset
  \<open>src/dataSourceSync\<close>) and \<open>invokeBedrockLambda.lambda_handler\<close> (asset
  \<open>src/invokeBedrockLambda\<close>). \<open>app.py\<close> declares them; their code is not part of it.
  The definitions of this section follow the specification of the two components
  instead.
\<close>

text \<open>Modelled from the spec: the error taxonomy of sections 4.1, 4.2 and 7, which the
  missing handlers would raise.\<close>

datatype error =
    NotFound | PermissionDenied | Conflict | InvalidInput | Transient | Fatal
  | RetrievalFailed | GenerationFailed

subsection \<open>Sync Orchestrator\<close>

text \<open>Modelled from the spec: the states of a sync job (section 3); the job record of
  the missing sync handler.\<close>

datatype SyncJobState = Requested | Running | Succeeded | Failed | Stopped

text \<open>Modelled from the spec: \<open>SyncJob\<close> of section 3, kept by the missing sync
  handler. The timestamps are optional until set.\<close>

record SyncJob =
  indexId :: string
  dataSourceId :: string
  jobId :: string
  state :: SyncJobState
  startedAt :: "nat option"
  endedAt :: "nat option"

text \<open>Modelled from the spec: a job of the missing sync handler is active while
  \<open>Requested\<close> or \<open>Running\<close> and terminal on \<open>Succeeded\<close>, \<open>Failed\<close>, \<open>Stopped\<close>
  (section 3).\<close>

definition active :: "SyncJob \<Rightarrow> bool" where
  "active j = (state j = Requested \<or> state j = Running)"

definition terminal :: "SyncJob \<Rightarrow> bool" where
  "terminal j = (state j = Succeeded \<or> state j = Failed \<or> state j = Stopped)"

text \<open>Modelled from the spec: the locally tracked in-flight state of the missing sync
  handler (section 4.1, step 1), together with a log of the calls it has made to the
  external index service.\<close>

record orchestrator =
  jobs :: "SyncJob list"
  start_calls :: "(string \<times> string) list"
  stop_calls :: "string list"

text \<open>Modelled from the spec: the search index service of section 6, as the missing
  sync handler calls it. \<open>StartSync\<close> answers with a job id or a typed error; its first
  argument counts the start calls made before, so that the service may answer each call
  differently.\<close>

record index_service =
  StartSync :: "nat \<Rightarrow> string \<Rightarrow> string \<Rightarrow> error + string"
  StopSync_ext :: "string \<Rightarrow> error option"

text \<open>Modelled from the spec: the check of section 4.1, step 1, of the missing sync
  handler: the active job tracked for a pair, if any.\<close>

definition find_active :: "SyncJob list \<Rightarrow> string \<Rightarrow> string \<Rightarrow> SyncJob option" where
  "find_active js i d = find (\<lambda>j. indexId j = i \<and> dataSourceId j = d \<and> active j) js"

text \<open>Modelled from the spec: \<open>RequestSync\<close> of the missing sync handler (section 4.1,
  steps 1 and 2, and its failure semantics). An active job for the pair is returned
  unchanged; otherwise the external start-sync operation is called once, without retry,
  and on success a job in state \<open>Running\<close> carries the returned id. The whole operation
  is one step: section 5 puts the check and the start under mutual exclusion keyed by
  the pair.\<close>

definition RequestSync ::
  "index_service \<Rightarrow> string \<Rightarrow> string \<Rightarrow> orchestrator \<Rightarrow> (error + SyncJob) \<times> orchestrator" where
  "RequestSync ext i d st =
     (case find_active (jobs st) i d of
        Some j \<Rightarrow> (Inr j, st)
      | None \<Rightarrow>
          (case StartSync ext (length (start_calls st)) i d of
             Inl e \<Rightarrow> (Inl e, st\<lparr>start_calls := start_calls st @ [(i, d)]\<rparr>)
           | Inr jid \<Rightarrow>
               (let j = \<lparr> indexId = i, dataSourceId = d, jobId = jid, state = Running,
                          startedAt = None, endedAt = None \<rparr>
                in (Inr j, st\<lparr>jobs := jobs st @ [j],
                              start_calls := start_calls st @ [(i, d)]\<rparr>))))"

text \<open>Modelled from the spec: \<open>StopSync\<close> of the missing sync handler (section 4.1,
  step 3): a best-effort signal to the external service that changes no job by itself;
  stopping a job already in a terminal state is a no-op success (section 8).\<close>

definition StopSync :: "index_service \<Rightarrow> string \<Rightarrow> orchestrator \<Rightarrow> error option \<times> orchestrator" where
  "StopSync ext jid st =
     (case find (\<lambda>j. jobId j = jid) (jobs st) of
        Some j \<Rightarrow>
          if terminal j then (None, st)
          else (StopSync_ext ext jid, st\<lparr>stop_calls := stop_calls st @ [jid]\<rparr>)
      | None \<Rightarrow> (StopSync_ext ext jid, st\<lparr>stop_calls := stop_calls st @ [jid]\<rparr>))"

text \<open>Modelled from the spec: \<open>GetStatus\<close> of the missing sync handler (section 4.1,
  step 4). Transitions are driven by polling the external service (section 3): the
  state it reports is recorded on the tracked job of that id, unless that job is
  terminal.\<close>

definition observe :: "string \<Rightarrow> SyncJobState \<Rightarrow> SyncJob \<Rightarrow> SyncJob" where
  "observe jid s j = (if jobId j = jid \<and> \<not> terminal j then j\<lparr>state := s\<rparr> else j)"

definition GetStatus ::
  "(string \<Rightarrow> SyncJobState) \<Rightarrow> string \<Rightarrow> orchestrator \<Rightarrow> SyncJobState \<times> orchestrator" where
  "GetStatus get_job_status jid st =
     (let s = get_job_status jid
      in (s, st\<lparr>jobs := map (observe jid s) (jobs st)\<rparr>))"

text \<open>Modelled from the spec: the invariant of section 3 on the jobs of the missing sync
  handler: no two active jobs have the same (indexId, dataSourceId) pair.\<close>

definition pair_of :: "SyncJob \<Rightarrow> string \<times> string" where
  "pair_of j = (indexId j, dataSourceId j)"

definition at_most_one_active :: "SyncJob list \<Rightarrow> bool" where
  "at_most_one_active js = distinct (map pair_of (filter active js))"

text \<open>Modelled from the spec: the calls the missing sync handler receives. Concurrent
  calls are serialised by the mutual exclusion of section 5, so a concurrent execution
  is some sequence of them; \<open>Status jid s\<close> is a \<open>GetStatus\<close> call that the service
  answers with \<open>s\<close>.\<close>

datatype call = Request string string | Stop string | Status string SyncJobState

fun perform :: "index_service \<Rightarrow> call \<Rightarrow> orchestrator \<Rightarrow> orchestrator" where
  "perform ext (Request i d) st = snd (RequestSync ext i d st)"
| "perform ext (Stop jid) st = snd (StopSync ext jid st)"
| "perform ext (Status jid s) st = snd (GetStatus (\<lambda>_. s) jid st)"

fun run :: "index_service \<Rightarrow> call list \<Rightarrow> orchestrator \<Rightarrow> orchestrator" where
  "run ext [] st = st"
| "run ext (c # cs) st = run ext cs (perform ext c st)"

text \<open>Modelled from the spec: the number of external start-sync calls the missing sync
  handler has made for a pair.\<close>

definition starts_for :: "orchestrator \<Rightarrow> string \<Rightarrow> string \<Rightarrow> nat" where
  "starts_for st i d = length (filter (\<lambda>c. c = (i, d)) (start_calls st))"

subsection \<open>Retrieval-Augmented Query Service\<close>

text \<open>Modelled from the spec: a passage of a \<open>RetrievalResult\<close> (section 3), as the
  missing query handler receives it; a result lists its passages by descending score.\<close>

record Passage =
  psg_text :: string
  sourceUri :: string
  score :: real

text \<open>Modelled from the spec: \<open>GenerationResponse\<close> of section 3, returned by the
  missing query handler, with the mark of section 4.2 for an answer generated without
  context.\<close>

record GenerationResponse =
  answer :: string
  citations :: "string list"
  grounded :: bool

text \<open>Modelled from the spec: the outcomes of one invocation of the generation model
  by the missing query handler (section 4.2: text, throttling, an invocation error, a
  timeout).\<close>

datatype invocation = Completed string | Throttled | InvocationError | TimedOut

text \<open>Modelled from the spec: the configuration of the missing query handler: the two
  identifiers of section 6, the passage count \<open>K\<close>, the input budget and the attempt
  cap of section 4.2, and the two policies section 9 leaves open, the prompt template
  and the test whether an answer references a source.\<close>

record query_config =
  cfg_indexId :: string
  cfg_modelId :: string
  cfg_K :: nat
  cfg_budget :: nat
  cfg_attempts :: nat
  cfg_prompt :: "string \<Rightarrow> Passage list \<Rightarrow> string"
  cfg_referenced :: "string \<Rightarrow> string \<Rightarrow> bool"

text \<open>Modelled from the spec: the external services of section 6 as the missing query
  handler calls them. \<open>Retrieve\<close> answers \<open>None\<close> when the index is unreachable;
  \<open>Invoke\<close> takes the number of the attempt first.\<close>

record query_services =
  Retrieve :: "string \<Rightarrow> string \<Rightarrow> nat \<Rightarrow> Passage list option"
  Invoke :: "nat \<Rightarrow> string \<Rightarrow> string \<Rightarrow> invocation"

text \<open>Modelled from the spec: the truncation policy of section 4.2 in the missing query
  handler. \<open>drop_lowest\<close> works on the passages in ascending order and drops the
  lowest-scored while the prompt does not fit and more than one passage is left; \<open>fit\<close>
  then shortens the text of the one remaining passage by the excess.\<close>

fun drop_lowest :: "(Passage list \<Rightarrow> bool) \<Rightarrow> Passage list \<Rightarrow> Passage list" where
  "drop_lowest fits [] = []"
| "drop_lowest fits [p] = [p]"
| "drop_lowest fits (p # q # ps) =
     (if fits (rev (p # q # ps)) then p # q # ps else drop_lowest fits (q # ps))"

definition fit :: "query_config \<Rightarrow> string \<Rightarrow> Passage list \<Rightarrow> Passage list" where
  "fit cfg query ps =
     (let fits = (\<lambda>xs. length (cfg_prompt cfg query xs) \<le> cfg_budget cfg);
          kept = rev (drop_lowest fits (rev ps))
      in case kept of
           [p] \<Rightarrow>
             if fits [p] then [p]
             else [p\<lparr>psg_text :=
                     take (length (psg_text p)
                             - (length (cfg_prompt cfg query [p]) - cfg_budget cfg))
                       (psg_text p)\<rparr>]
         | _ \<Rightarrow> kept)"

text \<open>Modelled from the spec: the generation call of the missing query handler (sections
  4.2 and 7): throttling is retried up to the attempt cap, every other failure and the
  exhausted cap surface as \<open>GenerationFailed\<close>.\<close>

fun generate ::
  "(nat \<Rightarrow> string \<Rightarrow> string \<Rightarrow> invocation) \<Rightarrow> string \<Rightarrow> string \<Rightarrow> nat \<Rightarrow> nat \<Rightarrow> error + string" where
  "generate invoke m prompt attempt 0 = Inl GenerationFailed"
| "generate invoke m prompt attempt (Suc left) =
     (case invoke attempt m prompt of
        Completed t \<Rightarrow> Inr t
      | Throttled \<Rightarrow> generate invoke m prompt (Suc attempt) left
      | InvocationError \<Rightarrow> Inl GenerationFailed
      | TimedOut \<Rightarrow> Inl GenerationFailed)"

text \<open>Modelled from the spec: the post-processing of the missing query handler (section
  4.2): the sources of the retrieved passages, without duplicates and in retrieval
  order, that the answer references; all of them when it references none.\<close>

definition cite :: "query_config \<Rightarrow> string \<Rightarrow> Passage list \<Rightarrow> string list" where
  "cite cfg a ps =
     (let uris = rev (remdups (rev (map sourceUri ps)));
          used = filter (cfg_referenced cfg a) uris
      in if used = [] then uris else used)"

text \<open>Modelled from the spec: \<open>Answer\<close> of the missing query handler (section 4.2): an
  empty query is \<open>InvalidInput\<close>; retrieval of at most \<open>K\<close> passages from the configured
  index, \<open>RetrievalFailed\<close> when the index is unreachable; generation from the prompt
  over the passages that fit; the response is marked ungrounded when nothing was
  retrieved.\<close>

definition Answer :: "query_config \<Rightarrow> query_services \<Rightarrow> string \<Rightarrow> error + GenerationResponse" where
  "Answer cfg ext query =
     (if query = [] then Inl InvalidInput
      else
        case Retrieve ext (cfg_indexId cfg) query (cfg_K cfg) of
          None \<Rightarrow> Inl RetrievalFailed
        | Some found \<Rightarrow>
            (let passages = take (cfg_K cfg) found;
                 prompt = cfg_prompt cfg query (fit cfg query passages)
             in case generate (Invoke ext) (cfg_modelId cfg) prompt 0 (cfg_attempts cfg) of
                  Inl e \<Rightarrow> Inl e
                | Inr a \<Rightarrow>
                    Inr \<lparr> answer = a, citations = cite cfg a passages,
                          grounded = (passages \<noteq> []) \<rparr>))"

text \<open>Modelled from the spec: one prompt template of the kind section 4.2 describes for
  the missing query handler: each passage labelled with its source, then the query.\<close>

definition plain_prompt :: "string \<Rightarrow> Passage list \<Rightarrow> string" where
  "plain_prompt query ps =
     concat (map (\<lambda>p. ''['' @ sourceUri p @ ''] '' @ psg_text p @ ''; '') ps) @ query"

section \<open>Unfolding the declarations\<close>

lemmas stack_defs =
  BedrockKendraGoogleDriveStack_def app_def
  model_id_param_def kendra_edition_param_def google_drive_secret_arn_param_def
  model_id_def kendra_edition_def google_drive_secret_arn_def
  kendra_index_role_def kendra_index_def kendra_ds_role_def kendra_ds_def
  data_source_sync_lambda_role_def data_source_sync_lambda_def
  data_source_sync_lambda_trigger_def
  invoke_bedrock_lambda_role_def invoke_bedrock_lambda_def
  value_as_string_def role_arn_def index_attr_id_def index_attr_arn_def
  ds_attr_id_def ds_attr_arn_def function_arn_def region_def add_dependency_def
  seconds_def minutes_def add_to_policy_def tracing_statement_def lambda_Function_def

lemmas read_defs =
  find_function_def env_var_def functions_with_key_def functions_given_def
  inline_statements_def inline_actions_def
  role_statements_def role_actions_def resources_for_def action_service_def
  service_actions_def

section \<open>Environment variables\<close>

text \<open>
  C1 (as stated, refuted on the application's own stack). The sync function's
  environment has no variable \<open>DATA_SOURCE_ID\<close>, and no function of the stack has one:
  the data-source id is passed under \<open>DS_ID\<close>.
\<close>

theorem C1_no_DATA_SOURCE_ID:
  "env_var app ''DataSourceSyncLambda'' ''DATA_SOURCE_ID'' = None
   \<and> functions_with_key app ''DATA_SOURCE_ID'' = []
   \<and> env_var app ''DataSourceSyncLambda'' ''DS_ID'' = Some [GetAtt ''KendraDS'' ''Id'']"
  by (simp add: stack_defs read_defs)

text \<open>
  C1 (amended). In every synthesized stack the sync function's environment is
  \<open>INDEX_ID\<close>, the id of the index the stack creates, and \<open>DS_ID\<close>, the id of the data
  source it creates; the query function's environment is \<open>INDEX_ID\<close>, the same index id,
  and \<open>MODEL_ID\<close>, the value of the \<open>ModelId\<close> parameter. \<open>MODEL_ID\<close> and the model
  identifier go to the query function only, \<open>DS_ID\<close> and the data-source id to the sync
  function only.
\<close>

theorem C1_environment_variables:
  "stack_indexes (BedrockKendraGoogleDriveStack construct_id) = [kendra_index construct_id]
   \<and> stack_data_sources (BedrockKendraGoogleDriveStack construct_id) = [kendra_ds construct_id]
   \<and> map (\<lambda>f. (fn_id f, fn_environment f))
        (stack_functions (BedrockKendraGoogleDriveStack construct_id))
       = [ (''DataSourceSyncLambda'',
              [ (''INDEX_ID'', index_attr_id (kendra_index construct_id)),
                (''DS_ID'', ds_attr_id (kendra_ds construct_id)) ]),
           (''InvokeBedrockLambda'',
              [ (''INDEX_ID'', index_attr_id (kendra_index construct_id)),
                (''MODEL_ID'', value_as_string model_id_param) ]) ]
   \<and> functions_with_key (BedrockKendraGoogleDriveStack construct_id) ''MODEL_ID''
       = [''InvokeBedrockLambda'']
   \<and> functions_given (BedrockKendraGoogleDriveStack construct_id)
        (value_as_string model_id_param) = [''InvokeBedrockLambda'']
   \<and> functions_with_key (BedrockKendraGoogleDriveStack construct_id) ''DS_ID''
       = [''DataSourceSyncLambda'']
   \<and> functions_given (BedrockKendraGoogleDriveStack construct_id)
        (ds_attr_id (kendra_ds construct_id)) = [''DataSourceSyncLambda'']"
  by (simp add: stack_defs read_defs)

section \<open>The deployment trigger\<close>

text \<open>
  C2 (as stated, refuted on the application's own stack). A deployment that updates the
  stack and leaves the sync function unchanged does not invoke it: the sync function
  is not invoked once per deployment.
\<close>

theorem C2_no_invocation_when_handler_unchanged:
  "deployment_invocations app (UpdateStack False) = []
   \<and> deployment_invocations app CreateStack = [(''DataSourceSyncLambda'', EVENT)]"
  by (simp add: stack_defs deployment_invocations_def trigger_runs_def)

text \<open>
  C2 (amended). Every synthesized stack has exactly one trigger; its handler is the
  sync function of the stack (the function whose code entry point is
  \<open>dataSourceSyncLambda.lambda_handler\<close>), and its invocation type is \<open>EVENT\<close>, the
  asynchronous one. The deployment that creates the stack invokes the sync function
  exactly once, and so does an update that changes the function; an update that leaves
  it unchanged, and the deletion of the stack, do not invoke it. No deployment makes an
  invocation that waits for the handler to finish.
\<close>

theorem C2_event_trigger_on_sync_function:
  "stack_triggers (BedrockKendraGoogleDriveStack construct_id)
     = [data_source_sync_lambda_trigger construct_id]
   \<and> tr_handler (data_source_sync_lambda_trigger construct_id)
       = data_source_sync_lambda construct_id
   \<and> find_function (BedrockKendraGoogleDriveStack construct_id) ''DataSourceSyncLambda''
       = Some (data_source_sync_lambda construct_id)
   \<and> fn_handler (data_source_sync_lambda construct_id) = ''dataSourceSyncLambda.lambda_handler''
   \<and> tr_invocation_type (data_source_sync_lambda_trigger construct_id) = EVENT
   \<and> length (filter (\<lambda>t. fn_id (tr_handler t) = ''DataSourceSyncLambda'')
        (stack_triggers (BedrockKendraGoogleDriveStack construct_id))) = 1
   \<and> deployment_invocations (BedrockKendraGoogleDriveStack construct_id) CreateStack
       = [(''DataSourceSyncLambda'', EVENT)]
   \<and> deployment_invocations (BedrockKendraGoogleDriveStack construct_id) (UpdateStack True)
       = [(''DataSourceSyncLambda'', EVENT)]
   \<and> deployment_invocations (BedrockKendraGoogleDriveStack construct_id) (UpdateStack False)
       = []
   \<and> deployment_invocations (BedrockKendraGoogleDriveStack construct_id) DeleteStack = []
   \<and> filter (\<lambda>(f, ty). waits_for_handler ty)
        (deployment_invocations (BedrockKendraGoogleDriveStack construct_id) ev) = []"
proof -
  have declared:
    "stack_triggers (BedrockKendraGoogleDriveStack construct_id)
       = [data_source_sync_lambda_trigger construct_id]"
    "tr_handler (data_source_sync_lambda_trigger construct_id)
       = data_source_sync_lambda construct_id"
    "find_function (BedrockKendraGoogleDriveStack construct_id) ''DataSourceSyncLambda''
       = Some (data_source_sync_lambda construct_id)"
    "fn_handler (data_source_sync_lambda construct_id) = ''dataSourceSyncLambda.lambda_handler''"
    "tr_invocation_type (data_source_sync_lambda_trigger construct_id) = EVENT"
    "length (filter (\<lambda>t. fn_id (tr_handler t) = ''DataSourceSyncLambda'')
        (stack_triggers (BedrockKendraGoogleDriveStack construct_id))) = 1"
    by (simp_all add: stack_defs read_defs)
  have runs:
    "deployment_invocations (BedrockKendraGoogleDriveStack construct_id) CreateStack
       = [(''DataSourceSyncLambda'', EVENT)]"
    "deployment_invocations (BedrockKendraGoogleDriveStack construct_id) (UpdateStack True)
       = [(''DataSourceSyncLambda'', EVENT)]"
    "deployment_invocations (BedrockKendraGoogleDriveStack construct_id) (UpdateStack False)
       = []"
    "deployment_invocations (BedrockKendraGoogleDriveStack construct_id) DeleteStack = []"
    by (simp_all add: stack_defs deployment_invocations_def trigger_runs_def)
  have no_wait:
    "filter (\<lambda>(f, ty). waits_for_handler ty)
       (deployment_invocations (BedrockKendraGoogleDriveStack construct_id) ev) = []"
  proof (cases ev)
    case CreateStack
    then show ?thesis by (simp add: runs waits_for_handler_def)
  next
    case (UpdateStack changed)
    then show ?thesis by (cases changed) (simp_all add: runs waits_for_handler_def)
  next
    case DeleteStack
    then show ?thesis by (simp add: runs)
  qed
  from declared runs no_wait show ?thesis by simp
qed

section \<open>Permissions and scoping\<close>

text \<open>
  C3. In every synthesized stack the only role whose inline policies allow an action of
  the secret store is the Kendra data-source role: it allows
  \<open>secretsmanager:GetSecretValue\<close> on the supplied secret ARN alone, it is assumed by
  the Kendra service, and it is the role of the data source, whose configuration names
  the same secret. The roles of the two functions allow no secret-store action (each
  attaches, besides its own statements, only the managed logging policy), and no
  function is handed the secret ARN in its environment.
\<close>

theorem C3_secret_read_only_by_data_source_role:
  "map r_id (filter (\<lambda>r. service_actions r ''secretsmanager'' \<noteq> [])
        (stack_roles (BedrockKendraGoogleDriveStack construct_id))) = [''KendraDSRole'']
   \<and> service_actions (kendra_ds_role construct_id) ''secretsmanager''
       = [''secretsmanager:GetSecretValue'']
   \<and> resources_for (kendra_ds_role construct_id) ''secretsmanager:GetSecretValue''
       = [value_as_string google_drive_secret_arn_param]
   \<and> r_assumed_by (kendra_ds_role construct_id) = ServicePrincipal ''kendra.amazonaws.com''
   \<and> map (\<lambda>ds. (ds_role_arn ds,
                 secret_arn (google_drive_configuration (ds_data_source_configuration ds))))
        (stack_data_sources (BedrockKendraGoogleDriveStack construct_id))
       = [(role_arn (kendra_ds_role construct_id), value_as_string google_drive_secret_arn_param)]
   \<and> map (\<lambda>f. (fn_id f, r_id (fn_role f), service_actions (fn_role f) ''secretsmanager'',
                 r_managed_policies (fn_role f)))
        (stack_functions (BedrockKendraGoogleDriveStack construct_id))
       = [ (''DataSourceSyncLambda'', ''DataSourceSyncLambdaRole'', [],
              [from_aws_managed_policy_name ''CloudWatchLogsFullAccess'']),
           (''InvokeBedrockLambda'', ''InvokeBedRockLambdaRole'', [],
              [from_aws_managed_policy_name ''CloudWatchLogsFullAccess'']) ]
   \<and> functions_given (BedrockKendraGoogleDriveStack construct_id)
        (value_as_string google_drive_secret_arn_param) = []"
  by (simp add: stack_defs read_defs)

text \<open>
  C4. In every synthesized stack there is one index; the query function's role allows
  \<open>kendra:Retrieve\<close>, its only Kendra action, on the ARN of that index and on nothing
  else; and the \<open>INDEX_ID\<close> of the query function's environment is the id of that same
  index.
\<close>

theorem C4_retrieve_scoped_to_the_index:
  "stack_indexes (BedrockKendraGoogleDriveStack construct_id) = [kendra_index construct_id]
   \<and> find_function (BedrockKendraGoogleDriveStack construct_id) ''InvokeBedrockLambda''
       = Some (invoke_bedrock_lambda construct_id)
   \<and> fn_role (invoke_bedrock_lambda construct_id)
       \<in> set (stack_roles (BedrockKendraGoogleDriveStack construct_id))
   \<and> resources_for (fn_role (invoke_bedrock_lambda construct_id)) ''kendra:Retrieve''
       = [index_attr_arn (kendra_index construct_id)]
   \<and> service_actions (fn_role (invoke_bedrock_lambda construct_id)) ''kendra''
       = [''kendra:Retrieve'']
   \<and> env_var (BedrockKendraGoogleDriveStack construct_id) ''InvokeBedrockLambda'' ''INDEX_ID''
       = Some (index_attr_id (kendra_index construct_id))"
  by (simp add: stack_defs read_defs)

section \<open>Timeouts\<close>

text \<open>
  C5. In every synthesized stack both functions run under a finite timeout: the sync
  function 15 minutes (900 seconds) and the query function 120 seconds (two minutes),
  and these are all the functions of the stack.
\<close>

theorem C5_function_timeouts:
  "map (\<lambda>f. (fn_id f, to_seconds (fn_timeout f)))
       (stack_functions (BedrockKendraGoogleDriveStack construct_id))
   = [(''DataSourceSyncLambda'', 900), (''InvokeBedrockLambda'', 120)]"
  by (simp add: stack_defs)

section \<open>Sync Orchestrator: at most one active job\<close>

lemma find_active_None:
  "find_active js i d = None \<Longrightarrow> (i, d) \<notin> set (map pair_of (filter active js))"
  by (auto simp: find_active_def find_None_iff pair_of_def)

lemma RequestSync_inv:
  "at_most_one_active (jobs st) \<Longrightarrow> at_most_one_active (jobs (snd (RequestSync ext i d st)))"
  by (auto simp: RequestSync_def at_most_one_active_def active_def Let_def pair_of_def
      dest!: find_active_None split: option.splits sum.splits)

lemma StopSync_jobs: "jobs (snd (StopSync ext jid st)) = jobs st"
  by (simp add: StopSync_def split: option.splits)

lemma observe_active: "active (observe jid s j) \<Longrightarrow> active j"
  by (auto simp: observe_def active_def terminal_def split: if_splits) (cases "state j"; simp)+

lemma pair_of_observe: "pair_of (observe jid s j) = pair_of j"
  by (simp add: observe_def pair_of_def)

lemma observe_pairs_subset:
  "set (map pair_of (filter active (map (observe jid s) js)))
     \<subseteq> set (map pair_of (filter active js))"
  using observe_active [of jid s] by (auto simp: pair_of_observe)

lemma observe_inv:
  "at_most_one_active js \<Longrightarrow> at_most_one_active (map (observe jid s) js)"
  unfolding at_most_one_active_def
proof (induction js)
  case Nil
  then show ?case by simp
next
  case (Cons j js)
  show ?case
  proof (cases "active (observe jid s j)")
    case True
    then have aj: "active j" by (rule observe_active)
    with Cons.prems have fresh: "pair_of j \<notin> set (map pair_of (filter active js))"
      and rest: "distinct (map pair_of (filter active js))" by simp_all
    from fresh observe_pairs_subset [of jid s js]
    have "pair_of j \<notin> set (map pair_of (filter active (map (observe jid s) js)))" by blast
    with True Cons.IH [OF rest] show ?thesis by (simp add: pair_of_observe)
  next
    case False
    from Cons.prems have "distinct (map pair_of (filter active js))"
      by (cases "active j") simp_all
    with False Cons.IH show ?thesis by simp
  qed
qed

lemma perform_inv:
  "at_most_one_active (jobs st) \<Longrightarrow> at_most_one_active (jobs (perform ext c st))"
  by (cases c) (simp_all add: RequestSync_inv StopSync_jobs GetStatus_def observe_inv)

lemma run_inv:
  "at_most_one_active (jobs st) \<Longrightarrow> at_most_one_active (jobs (run ext cs st))"
  by (induction cs arbitrary: st) (simp_all add: perform_inv)

lemma RequestSync_existing:
  "find_active (jobs st) i d = Some j \<Longrightarrow> RequestSync ext i d st = (Inr j, st)"
  by (simp add: RequestSync_def)

lemma find_append_Some: "find P xs = Some x \<Longrightarrow> find P (xs @ ys) = Some x"
  by (induction xs) (auto split: if_splits)

lemma RequestSync_keeps_active:
  "find_active (jobs st) i d = Some j \<Longrightarrow>
   find_active (jobs (snd (RequestSync ext i' d' st))) i d = Some j"
  by (auto simp: RequestSync_def find_active_def Let_def find_append_Some
      split: option.splits sum.splits)

lemma RequestSync_no_new_start:
  "find_active (jobs st) i d = Some j \<Longrightarrow>
   starts_for (snd (RequestSync ext i' d' st)) i d = starts_for st i d"
  by (auto simp: RequestSync_def starts_for_def Let_def split: option.splits sum.splits)

lemma requests_no_new_start:
  "find_active (jobs st) i d = Some j \<Longrightarrow>
   starts_for (run ext (map (\<lambda>(i', d'). Request i' d') reqs) st) i d = starts_for st i d
   \<and> find_active (jobs (run ext (map (\<lambda>(i', d'). Request i' d') reqs) st)) i d = Some j"
proof (induction reqs arbitrary: st)
  case Nil
  then show ?case by simp
next
  case (Cons r reqs)
  obtain i' d' where r: "r = (i', d')" by (cases r)
  let ?st = "snd (RequestSync ext i' d' st)"
  from Cons.prems have "find_active (jobs ?st) i d = Some j"
    by (rule RequestSync_keeps_active)
  from Cons.IH [OF this] RequestSync_no_new_start [OF Cons.prems, of ext i' d']
  show ?case by (simp add: r)
qed

lemma find_append_None: "find P xs = None \<Longrightarrow> find P (xs @ ys) = find P ys"
  by (induction xs) (auto split: if_splits)

lemma RequestSync_first:
  assumes "find_active (jobs st) i d = None"
    and "StartSync ext (length (start_calls st)) i d = Inr jid"
  shows "starts_for (snd (RequestSync ext i d st)) i d = Suc (starts_for st i d)
   \<and> find_active (jobs (snd (RequestSync ext i d st))) i d
       = Some \<lparr> indexId = i, dataSourceId = d, jobId = jid, state = Running,
                startedAt = None, endedAt = None \<rparr>"
proof -
  from assms(1) have "find (\<lambda>j. indexId j = i \<and> dataSourceId j = d \<and> active j) (jobs st) = None"
    by (simp add: find_active_def)
  from find_append_None [OF this] assms show ?thesis
    by (simp add: RequestSync_def starts_for_def find_active_def active_def Let_def)
qed

text \<open>
  C6. Starting from jobs with at most one active job per (indexId, dataSourceId) pair,
  every sequence of calls to the orchestrator (the serialised form of any concurrent
  execution) leaves at most one active job per pair. A \<open>RequestSync\<close> for a pair whose
  job is active returns that job and changes nothing, and any number of requests, for
  this or other pairs, adds no external start-sync call for the pair and leaves its job
  in place. Requests for a pair with no active job, the first of which starts a job,
  make exactly one external start-sync call for that pair.
\<close>

theorem C6_at_most_one_active_sync_job:
  assumes "at_most_one_active (jobs st)"
  shows "at_most_one_active (jobs (run ext cs st))
    \<and> (find_active (jobs st) i d = Some j \<longrightarrow>
         RequestSync ext i d st = (Inr j, st)
         \<and> starts_for (run ext (map (\<lambda>(i', d'). Request i' d') reqs) st) i d = starts_for st i d
         \<and> find_active (jobs (run ext (map (\<lambda>(i', d'). Request i' d') reqs) st)) i d = Some j)
    \<and> (find_active (jobs st) i2 d2 = None
         \<and> StartSync ext (length (start_calls st)) i2 d2 = Inr jid \<longrightarrow>
         starts_for (run ext (Request i2 d2 # map (\<lambda>(i', d'). Request i' d') reqs) st) i2 d2
           = Suc (starts_for st i2 d2))"
proof (intro conjI impI)
  show "at_most_one_active (jobs (run ext cs st))"
    using assms by (rule run_inv)
next
  assume "find_active (jobs st) i d = Some j"
  then show "RequestSync ext i d st = (Inr j, st)"
    by (rule RequestSync_existing)
next
  assume a: "find_active (jobs st) i d = Some j"
  from requests_no_new_start [OF a]
  show "starts_for (run ext (map (\<lambda>(i', d'). Request i' d') reqs) st) i d = starts_for st i d"
    by blast
next
  assume a: "find_active (jobs st) i d = Some j"
  from requests_no_new_start [OF a]
  show "find_active (jobs (run ext (map (\<lambda>(i', d'). Request i' d') reqs) st)) i d = Some j"
    by blast
next
  assume a: "find_active (jobs st) i2 d2 = None
    \<and> StartSync ext (length (start_calls st)) i2 d2 = Inr jid"
  let ?st = "snd (RequestSync ext i2 d2 st)"
  from a RequestSync_first [of st i2 d2 ext jid]
  have first: "starts_for ?st i2 d2 = Suc (starts_for st i2 d2)"
    and running: "find_active (jobs ?st) i2 d2
       = Some \<lparr> indexId = i2, dataSourceId = d2, jobId = jid, state = Running,
                startedAt = None, endedAt = None \<rparr>"
    by simp_all
  from requests_no_new_start [OF running, of ext reqs] first
  show "starts_for (run ext (Request i2 d2 # map (\<lambda>(i', d'). Request i' d') reqs) st) i2 d2
          = Suc (starts_for st i2 d2)"
    by simp
qed

theorem C6_at_most_one_active_sync_job_witness:
  "at_most_one_active
     [\<lparr> indexId = ''index'', dataSourceId = ''drive'', jobId = ''job-1'', state = Running,
        startedAt = None, endedAt = None \<rparr>]
   \<and> at_most_one_active (jobs (run
        \<lparr> StartSync = (\<lambda>n i d. Inr (''job-'' @ d)), StopSync_ext = (\<lambda>jid. None) \<rparr>
        [Request ''index'' ''drive'', Status ''job-1'' Succeeded, Request ''index'' ''drive'']
        \<lparr> jobs = [\<lparr> indexId = ''index'', dataSourceId = ''drive'', jobId = ''job-1'',
                     state = Running, startedAt = None, endedAt = None \<rparr>],
          start_calls = [(''index'', ''drive'')], stop_calls = [] \<rparr>))
   \<and> starts_for (run
        \<lparr> StartSync = (\<lambda>n i d. Inr (''job-'' @ d)), StopSync_ext = (\<lambda>jid. None) \<rparr>
        [Request ''index'' ''drive'', Request ''index'' ''drive'']
        \<lparr> jobs = [\<lparr> indexId = ''index'', dataSourceId = ''drive'', jobId = ''job-1'',
                     state = Running, startedAt = None, endedAt = None \<rparr>],
          start_calls = [(''index'', ''drive'')], stop_calls = [] \<rparr>) ''index'' ''drive'' = 1
   \<and> starts_for (run
        \<lparr> StartSync = (\<lambda>n i d. Inr (''job-'' @ d)), StopSync_ext = (\<lambda>jid. None) \<rparr>
        [Request ''index'' ''mail'', Request ''index'' ''drive'', Request ''index'' ''mail'']
        \<lparr> jobs = [\<lparr> indexId = ''index'', dataSourceId = ''drive'', jobId = ''job-1'',
                     state = Running, startedAt = None, endedAt = None \<rparr>],
          start_calls = [(''index'', ''drive'')], stop_calls = [] \<rparr>) ''index'' ''mail'' = 1"
proof -
  let ?ext = "\<lparr> StartSync = (\<lambda>n i d. Inr (''job-'' @ d)), StopSync_ext = (\<lambda>jid. None) \<rparr>"
  let ?job = "\<lparr> indexId = ''index'', dataSourceId = ''drive'', jobId = ''job-1'',
                 state = Running, startedAt = None, endedAt = None \<rparr>"
  let ?st = "\<lparr> jobs = [?job], start_calls = [(''index'', ''drive'')], stop_calls = [] \<rparr>"
  have inv: "at_most_one_active (jobs ?st)"
    by (simp add: at_most_one_active_def)
  have running: "find_active (jobs ?st) ''index'' ''drive'' = Some ?job"
    by (simp add: find_active_def active_def)
  have none: "find_active (jobs ?st) ''index'' ''mail'' = None"
    by (simp add: find_active_def)
  have started: "StartSync ?ext (length (start_calls ?st)) ''index'' ''mail'' = Inr ''job-mail''"
    by simp
  note C6 = C6_at_most_one_active_sync_job [OF inv, of ?ext
      "[Request ''index'' ''drive'', Status ''job-1'' Succeeded, Request ''index'' ''drive'']"
      "''index''" "''drive''" ?job
      "[(''index'', ''drive''), (''index'', ''mail'')]" "''index''" "''mail''" "''job-mail''"]
  note C6' = C6_at_most_one_active_sync_job [OF inv, of ?ext "[]"
      "''index''" "''drive''" ?job
      "[(''index'', ''drive''), (''index'', ''drive'')]" "''index''" "''mail''" "''job-mail''"]
  from C6 have one: "at_most_one_active (jobs (run ?ext
      [Request ''index'' ''drive'', Status ''job-1'' Succeeded, Request ''index'' ''drive''] ?st))"
    by blast
  from C6' running
  have "starts_for (run ?ext
      (map (\<lambda>(i', d'). Request i' d') [(''index'', ''drive''), (''index'', ''drive'')]) ?st)
      ''index'' ''drive'' = starts_for ?st ''index'' ''drive''"
    by blast
  then have same: "starts_for (run ?ext [Request ''index'' ''drive'', Request ''index'' ''drive''] ?st)
      ''index'' ''drive'' = 1"
    by (simp add: starts_for_def)
  from C6 none started
  have "starts_for (run ?ext
      (Request ''index'' ''mail''
         # map (\<lambda>(i', d'). Request i' d') [(''index'', ''drive''), (''index'', ''mail'')]) ?st)
      ''index'' ''mail'' = Suc (starts_for ?st ''index'' ''mail'')"
    by blast
  then have fresh: "starts_for (run ?ext
      [Request ''index'' ''mail'', Request ''index'' ''drive'', Request ''index'' ''mail''] ?st)
      ''index'' ''mail'' = 1"
    by (simp add: starts_for_def)
  from inv one same fresh show ?thesis by simp
qed

section \<open>Query Service: an empty retrieval\<close>

lemma generate_error: "generate invoke m prompt attempt left = Inl e \<Longrightarrow> e = GenerationFailed"
  by (induction left arbitrary: attempt) (auto split: invocation.splits)

lemma fit_Nil: "fit cfg query [] = []"
  by (simp add: fit_def)

text \<open>
  C7 (as stated, refuted). With retrieval returning zero passages, \<open>Answer\<close> is an
  error when the generation attempt fails (here the model times out), and when the
  query is empty: it does not return a response for every such query.
\<close>

theorem C7_zero_passages_can_still_fail:
  "Retrieve \<lparr> Retrieve = (\<lambda>i q k. Some []), Invoke = (\<lambda>n m p. TimedOut) \<rparr>
     ''index'' ''vacation policy?'' 5 = Some []
   \<and> Answer
       \<lparr> cfg_indexId = ''index'', cfg_modelId = ''anthropic.claude-v2'', cfg_K = 5,
         cfg_budget = 4000, cfg_attempts = 3, cfg_prompt = plain_prompt,
         cfg_referenced = (\<lambda>a uri. False) \<rparr>
       \<lparr> Retrieve = (\<lambda>i q k. Some []), Invoke = (\<lambda>n m p. TimedOut) \<rparr>
       ''vacation policy?''
      = Inl GenerationFailed
   \<and> Retrieve \<lparr> Retrieve = (\<lambda>i q k. Some []), Invoke = (\<lambda>n m p. TimedOut) \<rparr>
       ''index'' [] 5 = Some []
   \<and> Answer
       \<lparr> cfg_indexId = ''index'', cfg_modelId = ''anthropic.claude-v2'', cfg_K = 5,
         cfg_budget = 4000, cfg_attempts = 3, cfg_prompt = plain_prompt,
         cfg_referenced = (\<lambda>a uri. False) \<rparr>
       \<lparr> Retrieve = (\<lambda>i q k. Some []), Invoke = (\<lambda>n m p. TimedOut) \<rparr>
       []
      = Inl InvalidInput"
  by (simp add: Answer_def fit_def numeral_3_eq_3)

text \<open>
  C7 (amended). For a non-empty query for which retrieval returns zero passages,
  \<open>Answer\<close> is neither \<open>RetrievalFailed\<close> nor \<open>InvalidInput\<close>: it is the outcome of
  generating from the prompt with no passages. Whenever that generation yields text,
  \<open>Answer\<close> returns a response with that text, an empty citations list and the
  ungrounded mark; the only error left is \<open>GenerationFailed\<close> from the generation
  attempt itself.
\<close>

theorem C7_zero_passages_still_answers:
  assumes "query \<noteq> []"
    and "Retrieve ext (cfg_indexId cfg) query (cfg_K cfg) = Some []"
  shows "Answer cfg ext query \<noteq> Inl RetrievalFailed
    \<and> Answer cfg ext query \<noteq> Inl InvalidInput
    \<and> Answer cfg ext query =
        (case generate (Invoke ext) (cfg_modelId cfg) (cfg_prompt cfg query []) 0 (cfg_attempts cfg) of
           Inl e \<Rightarrow> Inl GenerationFailed
         | Inr a \<Rightarrow> Inr \<lparr> answer = a, citations = [], grounded = False \<rparr>)"
  using assms generate_error [of "Invoke ext" "cfg_modelId cfg" "cfg_prompt cfg query []" 0 "cfg_attempts cfg"]
  by (auto simp: Answer_def fit_Nil cite_def split: sum.splits)

theorem C7_zero_passages_still_answers_witness:
  "Answer
     \<lparr> cfg_indexId = ''index'', cfg_modelId = ''anthropic.claude-v2'', cfg_K = 5,
       cfg_budget = 4000, cfg_attempts = 3, cfg_prompt = plain_prompt,
       cfg_referenced = (\<lambda>a uri. False) \<rparr>
     \<lparr> Retrieve = (\<lambda>i q k. Some []),
       Invoke = (\<lambda>n m p. if n < 2 then Throttled else Completed (''no context: '' @ p)) \<rparr>
     ''vacation policy?''
   = Inr \<lparr> answer = ''no context: vacation policy?'', citations = [], grounded = False \<rparr>"
proof -
  let ?cfg = "\<lparr> cfg_indexId = ''index'', cfg_modelId = ''anthropic.claude-v2'', cfg_K = 5,
       cfg_budget = 4000, cfg_attempts = 3, cfg_prompt = plain_prompt,
       cfg_referenced = (\<lambda>a uri. False) \<rparr>"
  let ?ext = "\<lparr> Retrieve = (\<lambda>i q k. Some []),
       Invoke = (\<lambda>n m p. if n < 2 then Throttled else Completed (''no context: '' @ p)) \<rparr>"
  have nonempty: "''vacation policy?'' \<noteq> []"
    by simp
  have empty: "Retrieve ?ext (cfg_indexId ?cfg) ''vacation policy?'' (cfg_K ?cfg) = Some []"
    by simp
  have third: "generate (Invoke ?ext) (cfg_modelId ?cfg) (cfg_prompt ?cfg ''vacation policy?'' [])
      0 (cfg_attempts ?cfg) = Inr ''no context: vacation policy?''"
    by (simp add: numeral_3_eq_3 plain_prompt_def)
  from C7_zero_passages_still_answers [OF nonempty empty] third
  show ?thesis by simp
qed

section \<open>The model identifier\<close>

text \<open>
  C8. The \<open>ModelId\<close> parameter of every synthesized stack allows the four listed
  Anthropic model strings and defaults to \<open>anthropic.claude-instant-v1\<close>. The query
  function's role allows \<open>bedrock:InvokeModel\<close>, its only Bedrock action, on one
  resource: the foundation-model ARN of the stack's region built from the parameter's
  value. So in every deployment that the parameter accepts, the model identifier is one
  of the four and the permission renders to that model's ARN.
\<close>

theorem C8_model_id_closed_set:
  "model_id_param \<in> set (stack_parameters (BedrockKendraGoogleDriveStack construct_id))
   \<and> p_allowed_values model_id_param = Some
        [ ''anthropic.claude-instant-v1'',
          ''anthropic.claude-3-sonnet-20240229-v1:0'',
          ''anthropic.claude-3-haiku-20240307-v1:0'',
          ''anthropic.claude-v2'' ]
   \<and> p_default model_id_param = Some ''anthropic.claude-instant-v1''
   \<and> parameter_value model_id_param None = Some ''anthropic.claude-instant-v1''
   \<and> find_function (BedrockKendraGoogleDriveStack construct_id) ''InvokeBedrockLambda''
       = Some (invoke_bedrock_lambda construct_id)
   \<and> fn_role (invoke_bedrock_lambda construct_id)
       \<in> set (stack_roles (BedrockKendraGoogleDriveStack construct_id))
   \<and> service_actions (fn_role (invoke_bedrock_lambda construct_id)) ''bedrock''
       = [''bedrock:InvokeModel'']
   \<and> resources_for (fn_role (invoke_bedrock_lambda construct_id)) ''bedrock:InvokeModel''
       = [[Text ''arn:aws:bedrock:'', AWS_Region, Text ''::foundation-model/'']
            @ value_as_string model_id_param]
   \<and> (parameter_value model_id_param supplied = Some m \<and> dep_parameter d ''ModelId'' = m
        \<longrightarrow> m \<in> { ''anthropic.claude-instant-v1'',
                   ''anthropic.claude-3-sonnet-20240229-v1:0'',
                   ''anthropic.claude-3-haiku-20240307-v1:0'',
                   ''anthropic.claude-v2'' }
          \<and> map (render d)
               (resources_for (fn_role (invoke_bedrock_lambda construct_id))
                  ''bedrock:InvokeModel'')
             = [''arn:aws:bedrock:'' @ dep_region d @ ''::foundation-model/'' @ m])"
  by (auto simp add: stack_defs read_defs parameter_value_def render_def
      split: option.splits if_splits)

theorem C8_model_id_closed_set_witness:
  "parameter_value model_id_param (Some ''anthropic.claude-v2'') = Some ''anthropic.claude-v2''
   \<and> map (render \<lparr> dep_region = ''us-east-1'',
                     dep_parameter = (\<lambda>p. ''anthropic.claude-v2''),
                     dep_attribute = (\<lambda>r a. r @ ''.'' @ a) \<rparr>)
        (resources_for (fn_role (invoke_bedrock_lambda ''BedrockKendraGoogleDriveStack''))
           ''bedrock:InvokeModel'')
      = [''arn:aws:bedrock:us-east-1::foundation-model/anthropic.claude-v2'']"
proof -
  let ?d = "\<lparr> dep_region = ''us-east-1'',
              dep_parameter = (\<lambda>p. ''anthropic.claude-v2''),
              dep_attribute = (\<lambda>r a. r @ ''.'' @ a) \<rparr>"
  have accepted:
    "parameter_value model_id_param (Some ''anthropic.claude-v2'') = Some ''anthropic.claude-v2''"
    by (simp add: parameter_value_def model_id_param_def)
  have given: "dep_parameter ?d ''ModelId'' = ''anthropic.claude-v2''"
    by simp
  have "map (render ?d)
          (resources_for (fn_role (invoke_bedrock_lambda ''BedrockKendraGoogleDriveStack''))
             ''bedrock:InvokeModel'')
        = [''arn:aws:bedrock:'' @ dep_region ?d @ ''::foundation-model/'' @ ''anthropic.claude-v2'']"
    using C8_model_id_closed_set
      [of "''BedrockKendraGoogleDriveStack''" "Some ''anthropic.claude-v2''"
          "''anthropic.claude-v2''" ?d]
      accepted given
    by blast
  then show ?thesis
    using accepted by simp
qed

section \<open>Creation order\<close>

text \<open>
  C9. In every synthesized stack the Google Drive data source is attached to the index
  by that index's id and carries an explicit dependency on the index construct. So in
  any creation order that respects dependencies and creates the data source, the index
  is created before it.
\<close>

theorem C9_data_source_after_index:
  "stack_indexes (BedrockKendraGoogleDriveStack construct_id) = [kendra_index construct_id]
   \<and> stack_data_sources (BedrockKendraGoogleDriveStack construct_id) = [kendra_ds construct_id]
   \<and> ds_type (kendra_ds construct_id) = ''GOOGLEDRIVE''
   \<and> ds_index_id (kendra_ds construct_id) = index_attr_id (kendra_index construct_id)
   \<and> ds_dependencies (kendra_ds construct_id) = [ix_id (kendra_index construct_id)]
   \<and> (respects_dependencies (BedrockKendraGoogleDriveStack construct_id) order
        \<and> ds_id (kendra_ds construct_id) \<in> set order
        \<longrightarrow> created_before order (ix_id (kendra_index construct_id))
              (ds_id (kendra_ds construct_id)))"
  by (simp add: stack_defs respects_dependencies_def)

theorem C9_data_source_after_index_witness:
  "respects_dependencies app [''KendraIndexRole'', ''KendraIndex'', ''KendraDSRole'', ''KendraDS'']
   \<and> created_before [''KendraIndexRole'', ''KendraIndex'', ''KendraDSRole'', ''KendraDS'']
        ''KendraIndex'' ''KendraDS''
   \<and> \<not> respects_dependencies app [''KendraDS'', ''KendraIndex'']"
  using C9_data_source_after_index
    [of "''BedrockKendraGoogleDriveStack''"
        "[''KendraIndexRole'', ''KendraIndex'', ''KendraDSRole'', ''KendraDS'']"]
  by (simp add: stack_defs respects_dependencies_def created_before_def)

section \<open>Separation of the two roles\<close>



end
